theory Spec2Isabelle
  imports Complex_Main "HOL-Library.Word"
begin

section \<open>Frame conversions (mavros/src/lib/ftf_frame_conversions.cpp)\<close>

text \<open>
  The C++ computes on \<open>double\<close>. The embedding idealises \<open>double\<close> as \<^typ>\<open>real\<close> and
  \<open>M_PI\<close>, \<open>M_PI_2\<close> as \<^term>\<open>pi\<close>, \<^term>\<open>pi / 2\<close>: every statement below is about the exact
  values that the floating-point results approximate ("within tolerance" in the
  specification).
\<close>

subsection \<open>Eigen: quaternions\<close>

text \<open>
  \<open>Eigen::Quaterniond\<close>, with the coefficient order of its constructor \<open>(w, x, y, z)\<close>.
\<close>

datatype Quaterniond = Quaterniond (qw: real) (qx: real) (qy: real) (qz: real)

datatype Vector3d = Vector3d (vx: real) (vy: real) (vz: real)

definition UnitX :: Vector3d where
  "UnitX = Vector3d 1 0 0"

definition UnitY :: Vector3d where
  "UnitY = Vector3d 0 1 0"

definition UnitZ :: Vector3d where
  "UnitZ = Vector3d 0 0 1"

text \<open>
  The quaternion of \<open>Eigen::AngleAxisd(angle, axis)\<close>: the cosine of the half angle, and
  the axis scaled by the sine of the half angle.
\<close>

definition AngleAxisd :: "real \<Rightarrow> Vector3d \<Rightarrow> Quaterniond" where
  "AngleAxisd angle axis =
     Quaterniond (cos (angle / 2)) (sin (angle / 2) * vx axis) (sin (angle / 2) * vy axis)
       (sin (angle / 2) * vz axis)"

text \<open>\<open>Quaternion::operator*\<close>: the Hamilton product, as Eigen's \<open>quat_product\<close> writes it.\<close>

definition quat_mul :: "Quaterniond \<Rightarrow> Quaterniond \<Rightarrow> Quaterniond" where
  "quat_mul a b = Quaterniond
     (qw a * qw b - qx a * qx b - qy a * qy b - qz a * qz b)
     (qw a * qx b + qx a * qw b + qy a * qz b - qz a * qy b)
     (qw a * qy b + qy a * qw b + qz a * qx b - qx a * qz b)
     (qw a * qz b + qz a * qw b + qx a * qy b - qy a * qx b)"

definition squaredNorm :: "Quaterniond \<Rightarrow> real" where
  "squaredNorm q = qw q * qw q + qx q * qx q + qy q * qy q + qz q * qz q"

text \<open>
  \<open>Quaternion::normalized()\<close>: the coefficients divided by the norm; Eigen leaves a
  quaternion of norm zero as it is.
\<close>

definition normalized :: "Quaterniond \<Rightarrow> Quaterniond" where
  "normalized q =
     (let n2 = squaredNorm q in
      if n2 > 0
      then Quaterniond (qw q / sqrt n2) (qx q / sqrt n2) (qy q / sqrt n2) (qz q / sqrt n2)
      else q)"

subsection \<open>Eigen: dense matrices\<close>

text \<open>
  A dense matrix is read by \<open>(row, column)\<close>; the operations take the dimension the
  C++ types fix (3 or 6). \<open>Matrix3\<close> writes a 3x3 matrix by its rows.
\<close>

type_synonym Matrix = "nat \<Rightarrow> nat \<Rightarrow> real"

definition Matrix3 ::
  "real \<Rightarrow> real \<Rightarrow> real \<Rightarrow> real \<Rightarrow> real \<Rightarrow> real \<Rightarrow> real \<Rightarrow> real \<Rightarrow> real \<Rightarrow> Matrix" where
  "Matrix3 a00 a01 a02 a10 a11 a12 a20 a21 a22 =
     (\<lambda>i j. [[a00, a01, a02], [a10, a11, a12], [a20, a21, a22]] ! i ! j)"

definition mat_mul :: "nat \<Rightarrow> Matrix \<Rightarrow> Matrix \<Rightarrow> Matrix" where
  "mat_mul n A B = (\<lambda>i j. \<Sum>k = 0..<n. A i k * B k j)"

definition transpose_m :: "Matrix \<Rightarrow> Matrix" where
  "transpose_m A = (\<lambda>i j. A j i)"

text \<open>\<open>Eigen::MatrixXd::Zero(3, 3)\<close>.\<close>

definition Zero_m :: Matrix where
  "Zero_m = (\<lambda>i j. 0)"

text \<open>
  The comma initialiser \<open>M << A, B, C, D\<close> of a 6x6 matrix from four 3x3 blocks: \<open>A\<close> and
  \<open>B\<close> fill rows 0..2, \<open>C\<close> and \<open>D\<close> rows 3..5.
\<close>

definition comma_init_blocks :: "Matrix \<Rightarrow> Matrix \<Rightarrow> Matrix \<Rightarrow> Matrix \<Rightarrow> Matrix" where
  "comma_init_blocks A B C D =
     (\<lambda>i j. if i < 3 then (if j < 3 then A i j else B i (j - 3))
            else (if j < 3 then C (i - 3) j else D (i - 3) (j - 3)))"

text \<open>
  \<open>Quaternion::toRotationMatrix()\<close>, with Eigen's intermediate products. It does not
  normalise: the result is a rotation matrix only for a unit quaternion.
\<close>

definition toRotationMatrix :: "Quaterniond \<Rightarrow> Matrix" where
  "toRotationMatrix q =
     (let tx = 2 * qx q; ty = 2 * qy q; tz = 2 * qz q;
          twx = tx * qw q; twy = ty * qw q; twz = tz * qw q;
          txx = tx * qx q; txy = ty * qx q; txz = tz * qx q;
          tyy = ty * qy q; tyz = tz * qy q; tzz = tz * qz q
      in Matrix3 (1 - (tyy + tzz)) (txy - twz) (txz + twy)
                 (txy + twz) (1 - (txx + tzz)) (tyz - twx)
                 (txz - twy) (tyz + twx) (1 - (txx + tyy)))"

text \<open>
  \<open>RotationBase::operator*(const EigenBase& l, const Derived& r)\<close>, the product
  \<open>matrix * quaternion\<close>: "the concatenation of a linear transformation \<open>l\<close> with the
  rotation \<open>r\<close>", that is \<open>l * r.toRotationMatrix()\<close>.
\<close>

definition mat_times_rotation :: "Matrix \<Rightarrow> Quaterniond \<Rightarrow> Matrix" where
  "mat_times_rotation l r = mat_mul 3 l (toRotationMatrix r)"

subsection \<open>Vectors and covariance arrays\<close>

text \<open>
  \<open>Eigen::Affine3d(q) * vec\<close>: the transform built from a quaternion has the linear part
  \<open>q.toRotationMatrix()\<close> and no translation.
\<close>

definition Affine3d_apply :: "Quaterniond \<Rightarrow> Vector3d \<Rightarrow> Vector3d" where
  "Affine3d_apply q v =
     (let R = toRotationMatrix q in
      Vector3d (R 0 0 * vx v + R 0 1 * vy v + R 0 2 * vz v)
               (R 1 0 * vx v + R 1 1 * vy v + R 1 2 * vz v)
               (R 2 0 * vx v + R 2 1 * vy v + R 2 2 * vz v))"

text \<open>
  \<open>Covariance3d\<close> and \<open>Covariance6d\<close> are \<open>boost::array<double, 9>\<close> and
  \<open>boost::array<double, 36>\<close>; \<open>EigenMapConstCovariance3d\<close> and its siblings view such an
  array as a row-major square matrix. Reading through the view is \<open>EigenMap\<close>, assigning
  a matrix to the view of a fresh array is \<open>EigenMap_assign\<close>.
\<close>

type_synonym Covariance3d = "real list"
type_synonym Covariance6d = "real list"

definition EigenMap :: "nat \<Rightarrow> real list \<Rightarrow> Matrix" where
  "EigenMap n a = (\<lambda>i j. a ! (i * n + j))"

definition EigenMap_assign :: "nat \<Rightarrow> Matrix \<Rightarrow> real list" where
  "EigenMap_assign n M = concat (map (\<lambda>i. map (\<lambda>j. M i j) [0..<n]) [0..<n])"

subsection \<open>The fixed rotations\<close>

text \<open>
  Modelled from the spec: \<open>quaternion_from_rpy\<close> is declared in \<open>mavros/frame_tf.h\<close> and
  defined outside the two source files. The source's comment on \<open>NED_ENU_Q\<close> reads "+PI
  rotation around X (North) axis followed by +PI/2 rotation about Z (Down)", the
  specification "composition of a half-turn about the forward/north axis followed by a
  quarter-turn about the down/up axis": the roll about X is applied first, then the pitch
  about Y, then the yaw about Z.
\<close>

definition quaternion_from_rpy :: "real \<Rightarrow> real \<Rightarrow> real \<Rightarrow> Quaterniond" where
  "quaternion_from_rpy roll pitch yaw =
     quat_mul (quat_mul (AngleAxisd yaw UnitZ) (AngleAxisd pitch UnitY)) (AngleAxisd roll UnitX)"

definition NED_ENU_Q :: Quaterniond where
  "NED_ENU_Q = quaternion_from_rpy pi 0 (pi / 2)"

definition AIRCRAFT_BASELINK_Q :: Quaterniond where
  "AIRCRAFT_BASELINK_Q = quaternion_from_rpy pi 0 0"

datatype StaticTF = NED_TO_ENU | ENU_TO_NED | AIRCRAFT_TO_BASELINK | BASELINK_TO_AIRCRAFT

subsection \<open>The transforms\<close>

fun transform_orientation :: "Quaterniond \<Rightarrow> StaticTF \<Rightarrow> Quaterniond" where
  "transform_orientation q NED_TO_ENU = quat_mul NED_ENU_Q q"
| "transform_orientation q ENU_TO_NED = quat_mul NED_ENU_Q q"
| "transform_orientation q AIRCRAFT_TO_BASELINK = quat_mul q AIRCRAFT_BASELINK_Q"
| "transform_orientation q BASELINK_TO_AIRCRAFT = quat_mul q AIRCRAFT_BASELINK_Q"

text \<open>\<open>transform_static_frame\<close> on \<open>Eigen::Vector3d\<close>.\<close>

fun transform_static_frame_vec :: "Vector3d \<Rightarrow> StaticTF \<Rightarrow> Vector3d" where
  "transform_static_frame_vec vec NED_TO_ENU = Affine3d_apply NED_ENU_Q vec"
| "transform_static_frame_vec vec ENU_TO_NED = Affine3d_apply NED_ENU_Q vec"
| "transform_static_frame_vec vec AIRCRAFT_TO_BASELINK = Affine3d_apply AIRCRAFT_BASELINK_Q vec"
| "transform_static_frame_vec vec BASELINK_TO_AIRCRAFT = Affine3d_apply AIRCRAFT_BASELINK_Q vec"

text \<open>\<open>transform_static_frame\<close> on \<open>Covariance3d\<close>: \<open>cov_out = cov_in * Q\<close>.\<close>

fun transform_static_frame_cov3 :: "Covariance3d \<Rightarrow> StaticTF \<Rightarrow> Covariance3d" where
  "transform_static_frame_cov3 cov NED_TO_ENU =
     EigenMap_assign 3 (mat_times_rotation (EigenMap 3 cov) NED_ENU_Q)"
| "transform_static_frame_cov3 cov ENU_TO_NED =
     EigenMap_assign 3 (mat_times_rotation (EigenMap 3 cov) NED_ENU_Q)"
| "transform_static_frame_cov3 cov AIRCRAFT_TO_BASELINK =
     EigenMap_assign 3 (mat_times_rotation (EigenMap 3 cov) AIRCRAFT_BASELINK_Q)"
| "transform_static_frame_cov3 cov BASELINK_TO_AIRCRAFT =
     EigenMap_assign 3 (mat_times_rotation (EigenMap 3 cov) AIRCRAFT_BASELINK_Q)"

text \<open>
  \<open>transform_static_frame\<close> on \<open>Covariance6d\<close>. \<open>_R\<close> and \<open>R_\<close> are the source's two local
  rotation matrices; the \<open>default\<close> label of the switch stands before the first case and
  no value of the enumeration reaches it.
\<close>

definition Affine6dTf :: "Matrix \<Rightarrow> Matrix" where
  "Affine6dTf R = comma_init_blocks R Zero_m Zero_m R"

fun transform_static_frame_cov6 :: "Covariance6d \<Rightarrow> StaticTF \<Rightarrow> Covariance6d" where
  "transform_static_frame_cov6 cov NED_TO_ENU =
     (let R = toRotationMatrix (normalized NED_ENU_Q); T = Affine6dTf R
      in EigenMap_assign 6 (mat_mul 6 (mat_mul 6 T (EigenMap 6 cov)) (transpose_m T)))"
| "transform_static_frame_cov6 cov ENU_TO_NED =
     (let R = toRotationMatrix (normalized NED_ENU_Q); T = Affine6dTf R
      in EigenMap_assign 6 (mat_mul 6 (mat_mul 6 T (EigenMap 6 cov)) (transpose_m T)))"
| "transform_static_frame_cov6 cov AIRCRAFT_TO_BASELINK =
     (let R = toRotationMatrix (normalized AIRCRAFT_BASELINK_Q); T = Affine6dTf R
      in EigenMap_assign 6 (mat_mul 6 (mat_mul 6 T (EigenMap 6 cov)) (transpose_m T)))"
| "transform_static_frame_cov6 cov BASELINK_TO_AIRCRAFT =
     (let R = toRotationMatrix (normalized AIRCRAFT_BASELINK_Q); T = Affine6dTf R
      in EigenMap_assign 6 (mat_mul 6 (mat_mul 6 T (EigenMap 6 cov)) (transpose_m T)))"

text \<open>\<open>transform_frame\<close>: the same under a rotation the caller supplies.\<close>

definition transform_frame_vec :: "Vector3d \<Rightarrow> Quaterniond \<Rightarrow> Vector3d" where
  "transform_frame_vec vec q = Affine3d_apply q vec"

definition transform_frame_cov3 :: "Covariance3d \<Rightarrow> Quaterniond \<Rightarrow> Covariance3d" where
  "transform_frame_cov3 cov q = EigenMap_assign 3 (mat_times_rotation (EigenMap 3 cov) q)"

definition transform_frame_cov6 :: "Covariance6d \<Rightarrow> Quaterniond \<Rightarrow> Covariance6d" where
  "transform_frame_cov6 cov q =
     (let R = toRotationMatrix (normalized q); T = Affine6dTf R
      in EigenMap_assign 6 (mat_mul 6 (mat_mul 6 T (EigenMap 6 cov)) (transpose_m T)))"

subsection \<open>The specification's covariance transform\<close>

text \<open>
  The quaternion the switch of each transform selects for a direction, and the
  specification's words for the covariance transforms, to compare the code with: the
  similarity transform \<open>R * C * R\<^sup>T\<close>, symmetry (the transposed matrix, written out
  row by row, gives the same entries) and the trace of a row-major square array.
\<close>

fun static_rotation :: "StaticTF \<Rightarrow> Quaterniond" where
  "static_rotation NED_TO_ENU = NED_ENU_Q"
| "static_rotation ENU_TO_NED = NED_ENU_Q"
| "static_rotation AIRCRAFT_TO_BASELINK = AIRCRAFT_BASELINK_Q"
| "static_rotation BASELINK_TO_AIRCRAFT = AIRCRAFT_BASELINK_Q"

definition spec_similarity :: "nat \<Rightarrow> Matrix \<Rightarrow> real list \<Rightarrow> real list" where
  "spec_similarity n R cov =
     EigenMap_assign n (mat_mul n (mat_mul n R (EigenMap n cov)) (transpose_m R))"

definition spec_transform_covariance3 :: "Covariance3d \<Rightarrow> Quaterniond \<Rightarrow> Covariance3d" where
  "spec_transform_covariance3 cov q = spec_similarity 3 (toRotationMatrix (normalized q)) cov"

definition is_symmetric :: "nat \<Rightarrow> real list \<Rightarrow> bool" where
  "is_symmetric n a =
     (EigenMap_assign n (transpose_m (EigenMap n a)) = EigenMap_assign n (EigenMap n a))"

definition trace :: "nat \<Rightarrow> real list \<Rightarrow> real" where
  "trace n a = (\<Sum>i = 0..<n. a ! (i * n + i))"

text \<open>
  A 6x6 array whose two off-diagonal 3x3 blocks (rows 0..2 with columns 3..5, rows 3..5
  with columns 0..2) are zero.
\<close>

definition off_diagonal_blocks_zero :: "Covariance6d \<Rightarrow> bool" where
  "off_diagonal_blocks_zero a =
     (\<forall>i \<in> set [0..<3]. \<forall>j \<in> set [0..<3]. a ! (i * 6 + (j + 3)) = 0 \<and> a ! ((i + 3) * 6 + j) = 0)"

section \<open>The node (src/mavros_node.cpp)\<close>

subsection \<open>Link diagnostics: \<open>MavlinkDiag\<close>\<close>

text \<open>
  \<open>mavlink_status_t\<close> is the MAVLink library's: the two packet counters are \<open>uint16_t\<close>,
  the other fields read here \<open>uint8_t\<close>. \<open>last_drop_count\<close> is an \<open>unsigned int\<close>, taken as
  32 bits wide.
\<close>

record mavlink_status_t =
  buffer_overrun :: "8 word"
  parse_error :: "8 word"
  current_rx_seq :: "8 word"
  current_tx_seq :: "8 word"
  packet_rx_success_count :: "16 word"
  packet_rx_drop_count :: "16 word"

text \<open>
  The status the task fills in: the key/value lines of \<open>addf\<close> with their \<open>%u\<close> argument,
  and the summary, a level with either a fixed text (\<open>summary\<close>) or a format and its \<open>%d\<close>
  argument (\<open>summaryf\<close>).
\<close>

datatype summary_text = Text string | Formatted string int

record DiagnosticStatusWrapper =
  key_values :: "(string \<times> nat) list"
  level :: nat
  message :: summary_text

definition addf :: "string \<Rightarrow> nat \<Rightarrow> DiagnosticStatusWrapper \<Rightarrow> DiagnosticStatusWrapper" where
  "addf key v stat = stat\<lparr>key_values := key_values stat @ [(key, v)]\<rparr>"

definition summary :: "nat \<Rightarrow> string \<Rightarrow> DiagnosticStatusWrapper \<Rightarrow> DiagnosticStatusWrapper" where
  "summary lvl txt stat = stat\<lparr>level := lvl, message := Text txt\<rparr>"

definition summaryf ::
  "nat \<Rightarrow> string \<Rightarrow> int \<Rightarrow> DiagnosticStatusWrapper \<Rightarrow> DiagnosticStatusWrapper" where
  "summaryf lvl fmt arg stat = stat\<lparr>level := lvl, message := Formatted fmt arg\<rparr>"

record MavlinkDiag =
  last_drop_count :: "32 word"

text \<open>
  \<open>MavlinkDiag::run\<close>. The first argument is what \<open>weak_link.lock()\<close> gives: \<open>None\<close> when the
  link is gone, otherwise the \<open>get_status()\<close> of the live link. The comparison and the
  subtraction are on \<open>unsigned int\<close>, the \<open>uint16_t\<close> counter converted; \<open>%d\<close> reads the
  difference as a signed \<open>int\<close>.
\<close>

definition run ::
  "mavlink_status_t option \<Rightarrow> MavlinkDiag \<Rightarrow> DiagnosticStatusWrapper
     \<Rightarrow> MavlinkDiag \<times> DiagnosticStatusWrapper" where
  "run weak_link d stat =
     (case weak_link of
        Some mav_status \<Rightarrow>
          (let stat = addf ''Received packets:'' (unat (packet_rx_success_count mav_status)) stat;
               stat = addf ''Dropped packets:'' (unat (packet_rx_drop_count mav_status)) stat;
               stat = addf ''Buffer overruns:'' (unat (buffer_overrun mav_status)) stat;
               stat = addf ''Parse errors:'' (unat (parse_error mav_status)) stat;
               stat = addf ''Rx sequence number:'' (unat (current_rx_seq mav_status)) stat;
               stat = addf ''Tx sequence number:'' (unat (current_tx_seq mav_status)) stat;
               drop = (ucast (packet_rx_drop_count mav_status) :: 32 word);
               stat = (if drop > last_drop_count d
                       then summaryf 1 ''%d packeges dropped since last report''
                              (sint (drop - last_drop_count d)) stat
                       else summary 0 ''connected'' stat)
           in (d\<lparr>last_drop_count := drop\<rparr>, stat))
      | None \<Rightarrow> (d, summary 2 ''not connected'' stat))"

subsection \<open>The router: \<open>MavRos\<close>\<close>

text \<open>
  The fields of \<open>mavlink_message_t\<close> that the node reads; all but the payload are
  \<open>uint8_t\<close>.
\<close>

record mavlink_message_t =
  len :: "8 word"
  seq :: "8 word"
  sysid :: "8 word"
  compid :: "8 word"
  msgid :: "8 word"
  payload64 :: "64 word list"

text \<open>
  A slot connected to a signal is \<open>MavRosPlugin::message_rx_cb\<close> bound to a plugin
  instance, so a signal is the list of the plugin instances connected to it, in the order
  of their \<open>connect\<close> calls (\<open>boost::signals2\<close> appends, and calls slots in that order).
  The type \<open>'p\<close> stands for a plugin instance.

  A call of a slot either returns or throws. When a slot throws, \<open>boost::signals2\<close> lets
  the exception leave the signal's call operator, and the slots after it are not called.
  \<open>signal_call\<close> gives the calls made, in order, with their arguments, and how the call of
  the signal ended.
\<close>

datatype outcome = Returned | Thrown

type_synonym rx_args = "mavlink_message_t \<times> 8 word \<times> 8 word"

fun signal_call :: "('p \<Rightarrow> rx_args \<Rightarrow> outcome) \<Rightarrow> 'p list \<Rightarrow> rx_args \<Rightarrow> ('p \<times> rx_args) list \<times> outcome" where
  "signal_call message_rx_cb [] args = ([], Returned)"
| "signal_call message_rx_cb (p # slots) args =
     (case message_rx_cb p args of
        Thrown \<Rightarrow> ([(p, args)], Thrown)
      | Returned \<Rightarrow>
          (let (calls, res) = signal_call message_rx_cb slots args in ((p, args) # calls, res)))"

record 'p MavRos =
  loaded_plugins :: "'p list"
  message_route_table :: "'p list list"

text \<open>
  \<open>MavRos::plugin_route_cb\<close>. The index is a \<open>uint8_t\<close>, below the 256 signals the
  constructor allocates; there is no \<open>try\<close> around the call.
\<close>

definition plugin_route_cb ::
  "('p \<Rightarrow> rx_args \<Rightarrow> outcome) \<Rightarrow> 'p MavRos \<Rightarrow> mavlink_message_t \<Rightarrow> 8 word \<Rightarrow> 8 word
     \<Rightarrow> ('p \<times> rx_args) list \<times> outcome" where
  "plugin_route_cb message_rx_cb s mmsg sysid' compid' =
     signal_call message_rx_cb (message_route_table s ! unat (msgid mmsg)) (mmsg, sysid', compid')"

text \<open>\<open>message_route_table[*it].connect(...)\<close> for one supported message id.\<close>

definition connect :: "8 word \<Rightarrow> 'p \<Rightarrow> 'p list list \<Rightarrow> 'p list list" where
  "connect it plugin table = table[unat it := table ! unat it @ [plugin]]"

text \<open>
  \<open>MavRos::add_plugin\<close>. \<open>createInstance\<close> is the plugin loader followed by the plugin's
  \<open>initialize\<close>: \<open>None\<close> when they throw a \<open>PluginlibException\<close>, which \<open>add_plugin\<close>
  catches and logs, leaving the node as it was. \<open>get_supported_messages\<close> is the plugin's
  list of \<open>uint8_t\<close> message ids.
\<close>

definition add_plugin ::
  "(string \<Rightarrow> 'p option) \<Rightarrow> ('p \<Rightarrow> 8 word list) \<Rightarrow> string \<Rightarrow> 'p MavRos \<Rightarrow> 'p MavRos" where
  "add_plugin createInstance get_supported_messages pl_name s =
     (case createInstance pl_name of
        None \<Rightarrow> s
      | Some plugin \<Rightarrow>
          foldl (\<lambda>s it. s\<lparr>message_route_table := connect it plugin (message_route_table s)\<rparr>)
            (s\<lparr>loaded_plugins := loaded_plugins s @ [plugin]\<rparr>)
            (get_supported_messages plugin))"

text \<open>
  The constructor, as far as the router goes: 256 empty signals, then \<open>add_plugin\<close> for
  every declared plugin class.
\<close>

definition MavRos_new :: "'p MavRos" where
  "MavRos_new = \<lparr>loaded_plugins = [], message_route_table = replicate 256 []\<rparr>"

definition MavRos_ctor ::
  "(string \<Rightarrow> 'p option) \<Rightarrow> ('p \<Rightarrow> 8 word list) \<Rightarrow> string list \<Rightarrow> 'p MavRos" where
  "MavRos_ctor createInstance get_supported_messages plugins =
     foldl (\<lambda>s pl_name. add_plugin createInstance get_supported_messages pl_name s)
       MavRos_new plugins"

text \<open>
  The registrations the constructor makes, in order, as pairs of a message id and the
  plugin connected to it, and from them the subscribers of one message id in
  registration order.
\<close>

definition registrations ::
  "(string \<Rightarrow> 'p option) \<Rightarrow> ('p \<Rightarrow> 8 word list) \<Rightarrow> string list \<Rightarrow> (8 word \<times> 'p) list" where
  "registrations createInstance get_supported_messages plugins =
     concat (map (\<lambda>pl_name. case createInstance pl_name of
                     None \<Rightarrow> []
                   | Some plugin \<Rightarrow> map (\<lambda>it. (it, plugin)) (get_supported_messages plugin))
               plugins)"

definition subscribers :: "(8 word \<times> 'p) list \<Rightarrow> 8 word \<Rightarrow> 'p list" where
  "subscribers regs m = map snd (filter (\<lambda>r. fst r = m) regs)"

section \<open>Example inputs\<close>

text \<open>
  A symmetric 6x6 covariance whose off-diagonal 3x3 blocks are zero, by rows.
\<close>

definition cov6_example :: Covariance6d where
  "cov6_example =
     [1, 2, 3, 0, 0, 0,
      2, 4, 5, 0, 0, 0,
      3, 5, 6, 0, 0, 0,
      0, 0, 0, 7, 0, 0,
      0, 0, 0, 0, 8, 0,
      0, 0, 0, 0, 0, 9]"

text \<open>
  A node with two loadable plugins: \<open>sys_status\<close> (instance 1) handles the message ids 0
  and 30, \<open>imu_pub\<close> (instance 2) the id 30; any other plugin name fails to load. The
  message has the id 30.
\<close>

definition example_createInstance :: "string \<Rightarrow> nat option" where
  "example_createInstance pl_name =
     (if pl_name = ''sys_status'' then Some 1
      else if pl_name = ''imu_pub'' then Some 2
      else None)"

definition example_supported_messages :: "nat \<Rightarrow> 8 word list" where
  "example_supported_messages plugin = (if plugin = 1 then [0, 30] else [30])"

definition example_plugins :: "string list" where
  "example_plugins = [''sys_status'', ''missing'', ''imu_pub'']"

definition example_message :: mavlink_message_t where
  "example_message = \<lparr>len = 0, seq = 7, sysid = 1, compid = 1, msgid = 30, payload64 = []\<rparr>"

text \<open>The two link statuses of the specification's example, and an empty status to fill.\<close>

definition example_status_1 :: mavlink_status_t where
  "example_status_1 =
     \<lparr>buffer_overrun = 0, parse_error = 0, current_rx_seq = 12, current_tx_seq = 0,
      packet_rx_success_count = 10, packet_rx_drop_count = 2\<rparr>"

definition example_status_2 :: mavlink_status_t where
  "example_status_2 =
     \<lparr>buffer_overrun = 0, parse_error = 0, current_rx_seq = 17, current_tx_seq = 0,
      packet_rx_success_count = 15, packet_rx_drop_count = 2\<rparr>"

definition empty_stat :: DiagnosticStatusWrapper where
  "empty_stat = \<lparr>key_values = [], level = 0, message = Text []\<rparr>"

section \<open>Properties of the frame conversions\<close>

subsection \<open>The fixed rotations, evaluated\<close>

lemma AIRCRAFT_BASELINK_Q_value: "AIRCRAFT_BASELINK_Q = Quaterniond 0 1 0 0"
  by (simp add: AIRCRAFT_BASELINK_Q_def quaternion_from_rpy_def AngleAxisd_def UnitX_def UnitY_def
      UnitZ_def quat_mul_def)

lemma NED_ENU_Q_value: "NED_ENU_Q = Quaterniond 0 (sqrt 2 / 2) (sqrt 2 / 2) 0"
  by (simp add: NED_ENU_Q_def quaternion_from_rpy_def AngleAxisd_def UnitX_def UnitY_def
      UnitZ_def quat_mul_def cos_45 sin_45)

lemma normalized_AIRCRAFT_BASELINK: "normalized AIRCRAFT_BASELINK_Q = AIRCRAFT_BASELINK_Q"
  by (simp add: AIRCRAFT_BASELINK_Q_value normalized_def squaredNorm_def)

lemma normalized_NED_ENU: "normalized NED_ENU_Q = NED_ENU_Q"
  by (simp add: NED_ENU_Q_value normalized_def squaredNorm_def)

text \<open>
  Both are half-turns: about the forward axis, and about the diagonal of the
  north/east plane (exchange the first two axes, reverse the third).
\<close>

lemma toRotationMatrix_AIRCRAFT_BASELINK:
  "toRotationMatrix AIRCRAFT_BASELINK_Q = Matrix3 1 0 0 0 (- 1) 0 0 0 (- 1)"
  by (simp add: AIRCRAFT_BASELINK_Q_value toRotationMatrix_def)

lemma toRotationMatrix_NED_ENU:
  "toRotationMatrix NED_ENU_Q = Matrix3 0 1 0 1 0 0 0 0 (- 1)"
  by (simp add: NED_ENU_Q_value toRotationMatrix_def)

subsection \<open>Sums, ranges and the row-major view\<close>

lemma sum_upt_3: "(\<Sum>k = 0..<3. f k) = f 0 + f 1 + (f (2::nat) :: real)"
  by (simp add: eval_nat_numeral)

lemma sum_upt_6: "(\<Sum>k = 0..<6. f k) = f 0 + f 1 + f 2 + f 3 + f 4 + (f (5::nat) :: real)"
  by (simp add: eval_nat_numeral)

lemma upt_3: "[0..<3] = [0, 1, 2]"
  by (simp add: upt_rec)

lemma upt_6: "[0..<6] = [0, 1, 2, 3, 4, 5]"
  by (simp add: upt_rec)

lemma length_concat_rows:
  "length (concat (map (\<lambda>i. map (M i) [0..<m]) [0..<n])) = n * m"
  by (induction n) simp_all

lemma nth_concat_rows:
  "i < n \<Longrightarrow> j < m \<Longrightarrow> concat (map (\<lambda>i. map (M i) [0..<m]) [0..<n]) ! (i * m + j) = M i j"
proof (induction n)
  case 0
  then show ?case by simp
next
  case (Suc n)
  show ?case
  proof (cases "i < n")
    case True
    then have "Suc i \<le> n" by simp
    then have "Suc i * m \<le> n * m" by (rule mult_le_mono1)
    with \<open>j < m\<close> have "i * m + j < n * m" by simp
    with Suc.IH [OF True \<open>j < m\<close>] show ?thesis
      by (simp add: nth_append length_concat_rows)
  next
    case False
    with \<open>i < Suc n\<close> have "i = n" by simp
    with \<open>j < m\<close> show ?thesis
      by (simp add: nth_append length_concat_rows)
  qed
qed

lemma length_EigenMap_assign: "length (EigenMap_assign n M) = n * n"
  by (simp add: EigenMap_assign_def length_concat_rows)

lemma nth_EigenMap_assign:
  "i < n \<Longrightarrow> j < n \<Longrightarrow> EigenMap_assign n M ! (i * n + j) = M i j"
  by (simp add: EigenMap_assign_def nth_concat_rows)

subsection \<open>What the covariance transforms compute\<close>

text \<open>
  The 3x3 transforms multiply the covariance by the rotation matrix on the right, and
  take the matrix of the quaternion as it is; the 6x6 transforms are similarity
  transforms under the block matrix of the re-normalised quaternion.
\<close>

lemma transform_static_frame_cov3_eq:
  "transform_static_frame_cov3 cov which =
     EigenMap_assign 3 (mat_mul 3 (EigenMap 3 cov) (toRotationMatrix (static_rotation which)))"
  by (cases which) (simp_all add: mat_times_rotation_def)

lemma transform_frame_cov3_eq:
  "transform_frame_cov3 cov q = EigenMap_assign 3 (mat_mul 3 (EigenMap 3 cov) (toRotationMatrix q))"
  by (simp add: transform_frame_cov3_def mat_times_rotation_def)

lemma transform_static_frame_cov6_eq:
  "transform_static_frame_cov6 cov which =
     spec_similarity 6 (Affine6dTf (toRotationMatrix (normalized (static_rotation which)))) cov"
  by (cases which) (simp_all add: spec_similarity_def Let_def)

lemma transform_frame_cov6_eq:
  "transform_frame_cov6 cov q =
     spec_similarity 6 (Affine6dTf (toRotationMatrix (normalized q))) cov"
  by (simp add: transform_frame_cov6_def spec_similarity_def Let_def)

text \<open>
  C1. The claim: for every 3x3 covariance and every direction,
  \<open>transform_static_frame\<close> returns \<open>R * cov * R\<^sup>T\<close> for the rotation matrix \<open>R\<close> of the
  re-normalised fixed orientation, and so does \<open>transform_frame\<close> for a quaternion. The
  code computes \<open>cov * R\<close> instead: on the covariance with diagonal \<open>1, 2, 3\<close> under
  \<open>AIRCRAFT_TO_BASELINK\<close> (the half-turn about the forward axis, the quaternion
  \<open>(0, 1, 0, 0)\<close>) it returns the diagonal \<open>1, -2, -3\<close>, where the similarity transform
  returns \<open>1, 2, 3\<close>. The 6x6 overloads do compute the similarity transform
  (\<open>transform_static_frame_cov6_eq\<close>).
\<close>

theorem transform_static_frame_cov3_is_right_product:
  "transform_static_frame_cov3 [1, 0, 0, 0, 2, 0, 0, 0, 3] AIRCRAFT_TO_BASELINK
     = [1, 0, 0, 0, - 2, 0, 0, 0, - 3]
   \<and> transform_frame_cov3 [1, 0, 0, 0, 2, 0, 0, 0, 3] (Quaterniond 0 1 0 0)
     = [1, 0, 0, 0, - 2, 0, 0, 0, - 3]
   \<and> spec_transform_covariance3 [1, 0, 0, 0, 2, 0, 0, 0, 3] (static_rotation AIRCRAFT_TO_BASELINK)
     = [1, 0, 0, 0, 2, 0, 0, 0, 3]"
  by (simp add: AIRCRAFT_BASELINK_Q_value mat_times_rotation_def mat_mul_def EigenMap_def
      EigenMap_assign_def toRotationMatrix_def Matrix3_def sum_upt_3 upt_3 transform_frame_cov3_def
      spec_transform_covariance3_def spec_similarity_def normalized_def squaredNorm_def
      transpose_m_def)

subsection \<open>Orientations\<close>

text \<open>
  On unit quaternions the product of quaternions is the product of their rotation
  matrices, in the same order: the left factor is the rotation applied last.
\<close>

lemma less_3_cases: "i < 3 \<Longrightarrow> i = 0 \<or> i = 1 \<or> i = (2::nat)"
  by linarith

lemma toRotationMatrix_quat_mul_entries:
  assumes "squaredNorm a = 1" "squaredNorm b = 1"
  shows "toRotationMatrix (quat_mul a b) 0 0 = mat_mul 3 (toRotationMatrix a) (toRotationMatrix b) 0 0"
    and "toRotationMatrix (quat_mul a b) 0 1 = mat_mul 3 (toRotationMatrix a) (toRotationMatrix b) 0 1"
    and "toRotationMatrix (quat_mul a b) 0 2 = mat_mul 3 (toRotationMatrix a) (toRotationMatrix b) 0 2"
    and "toRotationMatrix (quat_mul a b) 1 0 = mat_mul 3 (toRotationMatrix a) (toRotationMatrix b) 1 0"
    and "toRotationMatrix (quat_mul a b) 1 1 = mat_mul 3 (toRotationMatrix a) (toRotationMatrix b) 1 1"
    and "toRotationMatrix (quat_mul a b) 1 2 = mat_mul 3 (toRotationMatrix a) (toRotationMatrix b) 1 2"
    and "toRotationMatrix (quat_mul a b) 2 0 = mat_mul 3 (toRotationMatrix a) (toRotationMatrix b) 2 0"
    and "toRotationMatrix (quat_mul a b) 2 1 = mat_mul 3 (toRotationMatrix a) (toRotationMatrix b) 2 1"
    and "toRotationMatrix (quat_mul a b) 2 2 = mat_mul 3 (toRotationMatrix a) (toRotationMatrix b) 2 2"
proof -
  obtain aw ax ay az where a: "a = Quaterniond aw ax ay az" by (cases a)
  obtain bw bx by' bz where b: "b = Quaterniond bw bx by' bz" by (cases b)
  from assms(1) a have na: "aw * aw = 1 - ax * ax - ay * ay - az * az"
    by (simp add: squaredNorm_def)
  from assms(2) b have nb: "bw * bw = 1 - bx * bx - by' * by' - bz * bz"
    by (simp add: squaredNorm_def)
  note defs = toRotationMatrix_def quat_mul_def mat_mul_def sum_upt_3 Matrix3_def Let_def
  show "toRotationMatrix (quat_mul a b) 0 0 = mat_mul 3 (toRotationMatrix a) (toRotationMatrix b) 0 0"
    using na nb unfolding a b by (simp add: defs) algebra
  show "toRotationMatrix (quat_mul a b) 0 1 = mat_mul 3 (toRotationMatrix a) (toRotationMatrix b) 0 1"
    using na nb unfolding a b by (simp add: defs) algebra
  show "toRotationMatrix (quat_mul a b) 0 2 = mat_mul 3 (toRotationMatrix a) (toRotationMatrix b) 0 2"
    using na nb unfolding a b by (simp add: defs) algebra
  show "toRotationMatrix (quat_mul a b) 1 0 = mat_mul 3 (toRotationMatrix a) (toRotationMatrix b) 1 0"
    using na nb unfolding a b by (simp add: defs) algebra
  show "toRotationMatrix (quat_mul a b) 1 1 = mat_mul 3 (toRotationMatrix a) (toRotationMatrix b) 1 1"
    using na nb unfolding a b by (simp add: defs) algebra
  show "toRotationMatrix (quat_mul a b) 1 2 = mat_mul 3 (toRotationMatrix a) (toRotationMatrix b) 1 2"
    using na nb unfolding a b by (simp add: defs) algebra
  show "toRotationMatrix (quat_mul a b) 2 0 = mat_mul 3 (toRotationMatrix a) (toRotationMatrix b) 2 0"
    using na nb unfolding a b by (simp add: defs) algebra
  show "toRotationMatrix (quat_mul a b) 2 1 = mat_mul 3 (toRotationMatrix a) (toRotationMatrix b) 2 1"
    using na nb unfolding a b by (simp add: defs) algebra
  show "toRotationMatrix (quat_mul a b) 2 2 = mat_mul 3 (toRotationMatrix a) (toRotationMatrix b) 2 2"
    using na nb unfolding a b by (simp add: defs) algebra
qed

lemma toRotationMatrix_quat_mul:
  assumes "squaredNorm a = 1" "squaredNorm b = 1" "i < 3" "j < 3"
  shows "toRotationMatrix (quat_mul a b) i j
           = mat_mul 3 (toRotationMatrix a) (toRotationMatrix b) i j"
  using less_3_cases [OF assms(3)] less_3_cases [OF assms(4)]
    toRotationMatrix_quat_mul_entries [OF assms(1,2)]
  by (elim disjE) (simp_all only:)

lemma squaredNorm_static: "squaredNorm NED_ENU_Q = 1" "squaredNorm AIRCRAFT_BASELINK_Q = 1"
  by (simp_all add: NED_ENU_Q_value AIRCRAFT_BASELINK_Q_value squaredNorm_def)

lemma transform_orientation_rotation:
  assumes "squaredNorm q = 1" "i < 3" "j < 3"
  shows "toRotationMatrix (transform_orientation q NED_TO_ENU) i j
           = mat_mul 3 (toRotationMatrix NED_ENU_Q) (toRotationMatrix q) i j"
    and "toRotationMatrix (transform_orientation q AIRCRAFT_TO_BASELINK) i j
           = mat_mul 3 (toRotationMatrix q) (toRotationMatrix AIRCRAFT_BASELINK_Q) i j"
  using assms by (simp_all add: toRotationMatrix_quat_mul squaredNorm_static)

text \<open>
  C2. For every quaternion \<open>q\<close> (unit or not), \<open>transform_orientation\<close> returns the product
  with the fixed NED/ENU quaternion on the left, \<open>NED_ENU_Q * q\<close>, for \<open>NED_TO_ENU\<close> and
  \<open>ENU_TO_NED\<close>, and the product with the fixed aircraft/base_link quaternion on the
  right, \<open>q * AIRCRAFT_BASELINK_Q\<close>, for \<open>AIRCRAFT_TO_BASELINK\<close> and
  \<open>BASELINK_TO_AIRCRAFT\<close>.
\<close>

theorem transform_orientation_composition:
  "transform_orientation q NED_TO_ENU = quat_mul NED_ENU_Q q
   \<and> transform_orientation q ENU_TO_NED = quat_mul NED_ENU_Q q
   \<and> transform_orientation q AIRCRAFT_TO_BASELINK = quat_mul q AIRCRAFT_BASELINK_Q
   \<and> transform_orientation q BASELINK_TO_AIRCRAFT = quat_mul q AIRCRAFT_BASELINK_Q"
  by simp

text \<open>
  C4, as stated: the round trip \<open>NED_TO_ENU\<close> then \<open>ENU_TO_NED\<close> gives back \<open>q\<close>. It fails
  at the identity orientation, a unit quaternion: the round trip returns
  \<open>(-1, 0, 0, 0)\<close>, which differs from \<open>(1, 0, 0, 0)\<close> by 2 in the first coefficient.
\<close>

theorem transform_orientation_round_trip_counterexample:
  "squaredNorm (Quaterniond 1 0 0 0) = 1
   \<and> transform_orientation (transform_orientation (Quaterniond 1 0 0 0) NED_TO_ENU) ENU_TO_NED
       = Quaterniond (- 1) 0 0 0
   \<and> transform_orientation (transform_orientation (Quaterniond 1 0 0 0) NED_TO_ENU) ENU_TO_NED
       \<noteq> Quaterniond 1 0 0 0"
  by (simp add: NED_ENU_Q_value quat_mul_def squaredNorm_def)

text \<open>
  C4, amended: for every quaternion \<open>q\<close>, the round trip \<open>NED_TO_ENU\<close> then \<open>ENU_TO_NED\<close>,
  and the round trip \<open>AIRCRAFT_TO_BASELINK\<close> then \<open>BASELINK_TO_AIRCRAFT\<close>, return \<open>-q\<close>,
  the quaternion with every coefficient negated; \<open>-q\<close> has the same rotation matrix as
  \<open>q\<close>, so it is the same orientation.
\<close>

theorem transform_orientation_round_trip_negates:
  "transform_orientation (transform_orientation q NED_TO_ENU) ENU_TO_NED
     = Quaterniond (- qw q) (- qx q) (- qy q) (- qz q)
   \<and> transform_orientation (transform_orientation q AIRCRAFT_TO_BASELINK) BASELINK_TO_AIRCRAFT
     = Quaterniond (- qw q) (- qx q) (- qy q) (- qz q)
   \<and> toRotationMatrix (Quaterniond (- qw q) (- qx q) (- qy q) (- qz q)) = toRotationMatrix q"
  by (simp add: NED_ENU_Q_value AIRCRAFT_BASELINK_Q_value quat_mul_def algebra_simps
      toRotationMatrix_def Let_def)

subsection \<open>Direction independence\<close>

text \<open>
  C10. The two directions of each fixed pair compute the same result, for every input:
  \<open>transform_orientation\<close>, and \<open>transform_static_frame\<close> on a vector, on a 3x3 and on a
  6x6 covariance, give the same value for \<open>NED_TO_ENU\<close> as for \<open>ENU_TO_NED\<close>, and the same
  for \<open>AIRCRAFT_TO_BASELINK\<close> as for \<open>BASELINK_TO_AIRCRAFT\<close>.
\<close>

theorem static_transforms_ignore_direction:
  "transform_orientation q NED_TO_ENU = transform_orientation q ENU_TO_NED
   \<and> transform_orientation q AIRCRAFT_TO_BASELINK = transform_orientation q BASELINK_TO_AIRCRAFT
   \<and> transform_static_frame_vec vec NED_TO_ENU = transform_static_frame_vec vec ENU_TO_NED
   \<and> transform_static_frame_vec vec AIRCRAFT_TO_BASELINK
       = transform_static_frame_vec vec BASELINK_TO_AIRCRAFT
   \<and> transform_static_frame_cov3 cov3 NED_TO_ENU = transform_static_frame_cov3 cov3 ENU_TO_NED
   \<and> transform_static_frame_cov3 cov3 AIRCRAFT_TO_BASELINK
       = transform_static_frame_cov3 cov3 BASELINK_TO_AIRCRAFT
   \<and> transform_static_frame_cov6 cov6 NED_TO_ENU = transform_static_frame_cov6 cov6 ENU_TO_NED
   \<and> transform_static_frame_cov6 cov6 AIRCRAFT_TO_BASELINK
       = transform_static_frame_cov6 cov6 BASELINK_TO_AIRCRAFT"
  by simp

subsection \<open>The 6x6 covariance transform\<close>

lemma Affine6dTf_entries:
  assumes "i < 3" "j < 3"
  shows "Affine6dTf R i j = R i j" "Affine6dTf R (i + 3) (j + 3) = R i j"
    "Affine6dTf R i (j + 3) = 0" "Affine6dTf R (i + 3) j = 0"
  using assms by (simp_all add: Affine6dTf_def comma_init_blocks_def Zero_m_def)

lemma Affine6dTf_upper_right: "i < 3 \<Longrightarrow> 3 \<le> k \<Longrightarrow> Affine6dTf R i k = 0"
  by (simp add: Affine6dTf_def comma_init_blocks_def Zero_m_def)

lemma Affine6dTf_lower_left: "3 \<le> i \<Longrightarrow> k < 3 \<Longrightarrow> Affine6dTf R i k = 0"
  by (simp add: Affine6dTf_def comma_init_blocks_def Zero_m_def)

text \<open>
  Under a block-diagonal \<open>T\<close>, an entry of \<open>T * C\<close> and of \<open>T * C * T\<^sup>T\<close> in an off-diagonal
  block is a sum of products that each have a zero factor.
\<close>

lemma similarity_keeps_blocks:
  fixes C :: Matrix
  assumes ur: "\<And>k l. k < 3 \<Longrightarrow> 3 \<le> l \<Longrightarrow> l < 6 \<Longrightarrow> C k l = 0"
    and ll: "\<And>k l. 3 \<le> k \<Longrightarrow> k < 6 \<Longrightarrow> l < 3 \<Longrightarrow> C k l = 0"
  shows "i < 3 \<Longrightarrow> 3 \<le> j \<Longrightarrow> j < 6
           \<Longrightarrow> mat_mul 6 (mat_mul 6 (Affine6dTf R) C) (transpose_m (Affine6dTf R)) i j = 0"
    and "3 \<le> i \<Longrightarrow> i < 6 \<Longrightarrow> j < 3
           \<Longrightarrow> mat_mul 6 (mat_mul 6 (Affine6dTf R) C) (transpose_m (Affine6dTf R)) i j = 0"
proof -
  let ?T = "Affine6dTf R"
  have TC_ur: "mat_mul 6 ?T C a l = 0" if "a < 3" "3 \<le> l" "l < 6" for a l
    unfolding mat_mul_def
  proof (rule sum.neutral, rule ballI)
    fix k :: nat assume "k \<in> {0..<6}"
    show "?T a k * C k l = 0"
    proof (cases "k < 3")
      case True
      with that show ?thesis by (simp add: ur)
    next
      case False
      with that show ?thesis by (simp add: Affine6dTf_upper_right)
    qed
  qed
  have TC_ll: "mat_mul 6 ?T C a l = 0" if "3 \<le> a" "l < 3" for a l
    unfolding mat_mul_def
  proof (rule sum.neutral, rule ballI)
    fix k :: nat assume "k \<in> {0..<6}"
    then have k: "k < 6" by simp
    show "?T a k * C k l = 0"
    proof (cases "k < 3")
      case True
      with that show ?thesis by (simp add: Affine6dTf_lower_left)
    next
      case False
      with that k show ?thesis by (simp add: ll)
    qed
  qed
  show "mat_mul 6 (mat_mul 6 ?T C) (transpose_m ?T) i j = 0" if "i < 3" "3 \<le> j" "j < 6"
    unfolding mat_mul_def [of 6 "mat_mul 6 ?T C"]
  proof (rule sum.neutral, rule ballI)
    fix l :: nat assume "l \<in> {0..<6}"
    then have l: "l < 6" by simp
    show "mat_mul 6 ?T C i l * transpose_m ?T l j = 0"
    proof (cases "l < 3")
      case True
      with that show ?thesis by (simp add: transpose_m_def Affine6dTf_lower_left)
    next
      case False
      with that l show ?thesis by (simp add: TC_ur)
    qed
  qed
  show "mat_mul 6 (mat_mul 6 ?T C) (transpose_m ?T) i j = 0" if "3 \<le> i" "i < 6" "j < 3"
    unfolding mat_mul_def [of 6 "mat_mul 6 ?T C"]
  proof (rule sum.neutral, rule ballI)
    fix l :: nat assume "l \<in> {0..<6}"
    show "mat_mul 6 ?T C i l * transpose_m ?T l j = 0"
    proof (cases "l < 3")
      case True
      with that show ?thesis by (simp add: TC_ll)
    next
      case False
      with that show ?thesis by (simp add: transpose_m_def Affine6dTf_upper_right)
    qed
  qed
qed

lemma off_diagonal_blocks_zero_iff:
  "off_diagonal_blocks_zero a \<longleftrightarrow>
     (\<forall>i < 3. \<forall>j < 3. a ! (i * 6 + (j + 3)) = 0 \<and> a ! ((i + 3) * 6 + j) = 0)"
  by (simp add: off_diagonal_blocks_zero_def Ball_def)

lemma spec_similarity_keeps_blocks:
  assumes "off_diagonal_blocks_zero cov"
  shows "off_diagonal_blocks_zero (spec_similarity 6 (Affine6dTf R) cov)"
proof -
  let ?C = "EigenMap 6 cov"
  let ?M = "mat_mul 6 (mat_mul 6 (Affine6dTf R) ?C) (transpose_m (Affine6dTf R))"
  have ur: "?C k l = 0" if "k < 3" "3 \<le> l" "l < 6" for k l
  proof -
    from that have "l - 3 < 3" "l = (l - 3) + 3" by simp_all
    with assms that(1) show ?thesis
      unfolding EigenMap_def off_diagonal_blocks_zero_iff by metis
  qed
  have ll: "?C k l = 0" if "3 \<le> k" "k < 6" "l < 3" for k l
  proof -
    from that have "k - 3 < 3" "k = (k - 3) + 3" by simp_all
    with assms that(3) show ?thesis
      unfolding EigenMap_def off_diagonal_blocks_zero_iff by metis
  qed
  have "EigenMap_assign 6 ?M ! (i * 6 + (j + 3)) = 0 \<and> EigenMap_assign 6 ?M ! ((i + 3) * 6 + j) = 0"
    if "i < 3" "j < 3" for i j
  proof -
    from that have "?M i (j + 3) = 0"
      by (intro similarity_keeps_blocks(1) [of ?C]) (simp_all add: ur ll)
    moreover from that have "?M (i + 3) j = 0"
      by (intro similarity_keeps_blocks(2) [of ?C]) (simp_all add: ur ll)
    moreover from that have "EigenMap_assign 6 ?M ! (i * 6 + (j + 3)) = ?M i (j + 3)"
      by (intro nth_EigenMap_assign) simp_all
    moreover from that have "EigenMap_assign 6 ?M ! ((i + 3) * 6 + j) = ?M (i + 3) j"
      by (intro nth_EigenMap_assign) simp_all
    ultimately show ?thesis by (simp only:)
  qed
  then show ?thesis
    unfolding off_diagonal_blocks_zero_iff spec_similarity_def by blast
qed

text \<open>
  C3. For every 6x6 covariance (an array of 36 entries) and every direction: the matrix
  \<open>T\<close> that \<open>transform_static_frame\<close> builds has the rotation matrix \<open>R\<close> of the
  re-normalised fixed orientation as its two diagonal 3x3 blocks and zero off-diagonal
  blocks; the result is the similarity transform \<open>T * cov * T\<^sup>T\<close>; and an input whose
  off-diagonal 3x3 blocks are zero gives an output whose off-diagonal 3x3 blocks are
  zero.
\<close>

theorem transform_static_frame_cov6_block_diagonal:
  assumes "length cov = 36"
  shows "(\<forall>i \<in> set [0..<3]. \<forall>j \<in> set [0..<3].
            Affine6dTf (toRotationMatrix (normalized (static_rotation which))) i j
              = toRotationMatrix (normalized (static_rotation which)) i j
          \<and> Affine6dTf (toRotationMatrix (normalized (static_rotation which))) (i + 3) (j + 3)
              = toRotationMatrix (normalized (static_rotation which)) i j
          \<and> Affine6dTf (toRotationMatrix (normalized (static_rotation which))) i (j + 3) = 0
          \<and> Affine6dTf (toRotationMatrix (normalized (static_rotation which))) (i + 3) j = 0)
       \<and> transform_static_frame_cov6 cov which
           = spec_similarity 6 (Affine6dTf (toRotationMatrix (normalized (static_rotation which)))) cov
       \<and> (off_diagonal_blocks_zero cov
            \<longrightarrow> off_diagonal_blocks_zero (transform_static_frame_cov6 cov which))"
  by (simp add: Affine6dTf_entries transform_static_frame_cov6_eq spec_similarity_keeps_blocks)

theorem transform_static_frame_cov6_block_diagonal_witness:
  "length cov6_example = 36 \<and> off_diagonal_blocks_zero cov6_example
   \<and> off_diagonal_blocks_zero (transform_static_frame_cov6 cov6_example NED_TO_ENU)
   \<and> transform_static_frame_cov6 cov6_example NED_TO_ENU
       = spec_similarity 6 (Affine6dTf (toRotationMatrix (normalized NED_ENU_Q))) cov6_example"
proof -
  have len: "length cov6_example = 36"
    by (simp add: cov6_example_def)
  have blocks: "off_diagonal_blocks_zero cov6_example"
    by (simp add: cov6_example_def off_diagonal_blocks_zero_def upt_3)
  from transform_static_frame_cov6_block_diagonal
         [OF len, of NED_TO_ENU, unfolded static_rotation.simps] len blocks
  show ?thesis by blast
qed

text \<open>The example, computed: the first two axes are exchanged and the third reversed.\<close>

lemma transform_static_frame_cov6_example:
  "transform_static_frame_cov6 cov6_example NED_TO_ENU =
     [4, 2, - 5, 0, 0, 0,
      2, 1, - 3, 0, 0, 0,
      - 5, - 3, 6, 0, 0, 0,
      0, 0, 0, 8, 0, 0,
      0, 0, 0, 0, 7, 0,
      0, 0, 0, 0, 0, 9]"
  by (simp add: cov6_example_def normalized_NED_ENU toRotationMatrix_NED_ENU Let_def
      EigenMap_assign_def EigenMap_def upt_6 mat_mul_def sum_upt_6 transpose_m_def
      Affine6dTf_def comma_init_blocks_def Zero_m_def Matrix3_def)

subsection \<open>Symmetry and trace\<close>

text \<open>
  A similarity transform keeps a symmetric matrix symmetric, and keeps the trace when the
  columns of \<open>T\<close> are orthonormal.
\<close>

lemma similarity_symmetric:
  fixes C T :: Matrix
  assumes "\<And>k l. k < n \<Longrightarrow> l < n \<Longrightarrow> C k l = C l k"
  shows "mat_mul n (mat_mul n T C) (transpose_m T) i j
           = mat_mul n (mat_mul n T C) (transpose_m T) j i"
proof -
  have "mat_mul n (mat_mul n T C) (transpose_m T) i j
          = (\<Sum>l = 0..<n. \<Sum>k = 0..<n. T i k * C k l * T j l)"
    by (simp add: mat_mul_def transpose_m_def sum_distrib_right)
  also have "\<dots> = (\<Sum>k = 0..<n. \<Sum>l = 0..<n. T i k * C k l * T j l)"
    by (rule sum.swap)
  also have "\<dots> = (\<Sum>k = 0..<n. \<Sum>l = 0..<n. T j l * C l k * T i k)"
    by (intro sum.cong refl) (simp add: assms)
  also have "\<dots> = mat_mul n (mat_mul n T C) (transpose_m T) j i"
    by (simp add: mat_mul_def transpose_m_def sum_distrib_right)
  finally show ?thesis .
qed

lemma similarity_trace:
  fixes C T :: Matrix
  assumes orth: "\<And>k l. k < n \<Longrightarrow> l < n
                   \<Longrightarrow> (\<Sum>i = 0..<n. T i k * T i l) = (if k = l then 1 else 0)"
  shows "(\<Sum>i = 0..<n. mat_mul n (mat_mul n T C) (transpose_m T) i i) = (\<Sum>k = 0..<n. C k k)"
proof -
  have "(\<Sum>i = 0..<n. mat_mul n (mat_mul n T C) (transpose_m T) i i)
          = (\<Sum>i = 0..<n. \<Sum>l = 0..<n. \<Sum>k = 0..<n. T i k * C k l * T i l)"
    by (simp add: mat_mul_def transpose_m_def sum_distrib_right)
  also have "\<dots> = (\<Sum>i = 0..<n. \<Sum>l = 0..<n. \<Sum>k = 0..<n. C k l * (T i k * T i l))"
    by (intro sum.cong refl) simp
  also have "\<dots> = (\<Sum>l = 0..<n. \<Sum>i = 0..<n. \<Sum>k = 0..<n. C k l * (T i k * T i l))"
    by (rule sum.swap)
  also have "\<dots> = (\<Sum>l = 0..<n. \<Sum>k = 0..<n. \<Sum>i = 0..<n. C k l * (T i k * T i l))"
    by (rule sum.cong [OF refl]) (rule sum.swap)
  also have "\<dots> = (\<Sum>l = 0..<n. \<Sum>k = 0..<n. C k l * (\<Sum>i = 0..<n. T i k * T i l))"
    by (simp add: sum_distrib_left)
  also have "\<dots> = (\<Sum>l = 0..<n. \<Sum>k = 0..<n. if k = l then C k l else 0)"
    by (intro sum.cong refl) (simp add: orth)
  also have "\<dots> = (\<Sum>l = 0..<n. C l l)"
    by (intro sum.cong refl) simp
  finally show ?thesis .
qed

lemma less_6_cases: "k < 6 \<Longrightarrow> k = 0 \<or> k = 1 \<or> k = 2 \<or> k = 3 \<or> k = 4 \<or> k = (5::nat)"
  by linarith

lemma Affine6dTf_NED_ENU_orthogonal:
  assumes "k < 6" "l < 6"
  shows "(\<Sum>i = 0..<6. Affine6dTf (Matrix3 0 1 0 1 0 0 0 0 (- 1)) i k
                        * Affine6dTf (Matrix3 0 1 0 1 0 0 0 0 (- 1)) i l)
           = (if k = l then 1 else 0)"
  using less_6_cases [OF assms(1)] less_6_cases [OF assms(2)]
  by (auto simp: sum_upt_6 Affine6dTf_def comma_init_blocks_def Zero_m_def Matrix3_def)

lemma Affine6dTf_AIRCRAFT_BASELINK_orthogonal:
  assumes "k < 6" "l < 6"
  shows "(\<Sum>i = 0..<6. Affine6dTf (Matrix3 1 0 0 0 (- 1) 0 0 0 (- 1)) i k
                        * Affine6dTf (Matrix3 1 0 0 0 (- 1) 0 0 0 (- 1)) i l)
           = (if k = l then 1 else 0)"
  using less_6_cases [OF assms(1)] less_6_cases [OF assms(2)]
  by (auto simp: sum_upt_6 Affine6dTf_def comma_init_blocks_def Zero_m_def Matrix3_def)

lemma static_Affine6dTf_orthogonal:
  assumes "k < 6" "l < 6"
  shows "(\<Sum>i = 0..<6. Affine6dTf (toRotationMatrix (normalized (static_rotation which))) i k
                        * Affine6dTf (toRotationMatrix (normalized (static_rotation which))) i l)
           = (if k = l then 1 else 0)"
  using assms
  by (cases which)
    (simp_all only: static_rotation.simps normalized_NED_ENU normalized_AIRCRAFT_BASELINK
      toRotationMatrix_NED_ENU toRotationMatrix_AIRCRAFT_BASELINK
      Affine6dTf_NED_ENU_orthogonal Affine6dTf_AIRCRAFT_BASELINK_orthogonal)

lemma EigenMap_assign_eq_iff:
  "EigenMap_assign n M = EigenMap_assign n M' \<longleftrightarrow> (\<forall>i < n. \<forall>j < n. M i j = M' i j)"
proof
  assume eq: "EigenMap_assign n M = EigenMap_assign n M'"
  show "\<forall>i < n. \<forall>j < n. M i j = M' i j"
  proof (intro allI impI)
    fix i j assume ij: "i < n" "j < n"
    then have "M i j = EigenMap_assign n M ! (i * n + j)"
      by (simp only: nth_EigenMap_assign)
    also have "\<dots> = EigenMap_assign n M' ! (i * n + j)"
      by (simp only: eq)
    also from ij have "\<dots> = M' i j"
      by (simp only: nth_EigenMap_assign)
    finally show "M i j = M' i j" .
  qed
next
  assume "\<forall>i < n. \<forall>j < n. M i j = M' i j"
  then show "EigenMap_assign n M = EigenMap_assign n M'"
    unfolding EigenMap_assign_def by (intro arg_cong [where f = concat]) simp
qed

lemma is_symmetric_iff:
  "is_symmetric n a \<longleftrightarrow> (\<forall>i < n. \<forall>j < n. a ! (i * n + j) = a ! (j * n + i))"
  unfolding is_symmetric_def EigenMap_assign_eq_iff transpose_m_def EigenMap_def
  by (auto simp: eq_commute)

text \<open>
  The 6x6 transform does what the specification asks of both covariance transforms: a
  symmetric input gives a symmetric output with the same trace.
\<close>

lemma transform_static_frame_cov6_symmetric_trace:
  assumes "is_symmetric 6 cov"
  shows "is_symmetric 6 (transform_static_frame_cov6 cov which)"
    and "trace 6 (transform_static_frame_cov6 cov which) = trace 6 cov"
proof -
  let ?T = "Affine6dTf (toRotationMatrix (normalized (static_rotation which)))"
  let ?C = "EigenMap 6 cov"
  let ?M = "mat_mul 6 (mat_mul 6 ?T ?C) (transpose_m ?T)"
  have out: "transform_static_frame_cov6 cov which = EigenMap_assign 6 ?M"
    by (simp add: transform_static_frame_cov6_eq spec_similarity_def)
  have sym: "?C k l = ?C l k" if "k < 6" "l < 6" for k l
    using assms that by (simp add: is_symmetric_iff EigenMap_def)
  show "is_symmetric 6 (transform_static_frame_cov6 cov which)"
    unfolding out is_symmetric_iff
    by (simp add: nth_EigenMap_assign similarity_symmetric [of 6 ?C, OF sym])
  have "trace 6 (EigenMap_assign 6 ?M) = (\<Sum>i = 0..<6. ?M i i)"
    unfolding trace_def
  proof (rule sum.cong [OF refl])
    fix i :: nat assume "i \<in> {0..<6}"
    then have "i < 6" by simp
    then show "EigenMap_assign 6 ?M ! (i * 6 + i) = ?M i i"
      by (simp only: nth_EigenMap_assign)
  qed
  also have "\<dots> = (\<Sum>k = 0..<6. ?C k k)"
    by (rule similarity_trace) (rule static_Affine6dTf_orthogonal)
  also have "\<dots> = trace 6 cov"
    by (simp add: trace_def EigenMap_def)
  finally show "trace 6 (transform_static_frame_cov6 cov which) = trace 6 cov"
    unfolding out .
qed

text \<open>
  C5. The claim: for every symmetric covariance, 3x3 or 6x6, and every direction, the
  output of the covariance transform is symmetric and has the trace of the input. The
  6x6 transform keeps both (\<open>transform_static_frame_cov6_symmetric_trace\<close>). The 3x3
  transform, which multiplies by the rotation matrix on the right only, does not: the
  symmetric input with rows \<open>(1, 1, 0)\<close>, \<open>(1, 1, 0)\<close>, \<open>(0, 0, 1)\<close> and trace 3 goes under
  \<open>AIRCRAFT_TO_BASELINK\<close> to the rows \<open>(1, -1, 0)\<close>, \<open>(1, -1, 0)\<close>, \<open>(0, 0, -1)\<close>, which are
  not symmetric and have the trace \<open>-1\<close>.
\<close>

theorem transform_static_frame_cov3_breaks_symmetry:
  "is_symmetric 3 [1, 1, 0, 1, 1, 0, 0, 0, 1]
   \<and> transform_static_frame_cov3 [1, 1, 0, 1, 1, 0, 0, 0, 1] AIRCRAFT_TO_BASELINK
       = [1, - 1, 0, 1, - 1, 0, 0, 0, - 1]
   \<and> \<not> is_symmetric 3 (transform_static_frame_cov3 [1, 1, 0, 1, 1, 0, 0, 0, 1] AIRCRAFT_TO_BASELINK)
   \<and> trace 3 [1, 1, 0, 1, 1, 0, 0, 0, 1] = 3
   \<and> trace 3 (transform_static_frame_cov3 [1, 1, 0, 1, 1, 0, 0, 0, 1] AIRCRAFT_TO_BASELINK) = - 1"
  by (simp add: AIRCRAFT_BASELINK_Q_value mat_times_rotation_def mat_mul_def EigenMap_def
      EigenMap_assign_def toRotationMatrix_def Matrix3_def sum_upt_3 upt_3 is_symmetric_def
      trace_def transpose_m_def)

section \<open>Properties of the node\<close>

subsection \<open>Unsigned counters\<close>

lemma unat_u8_less_256: "unat (m :: 8 word) < 256"
  using unsigned_less [of m, where 'a = nat] by simp

lemma unat_u16_less: "unat (a :: 16 word) < 65536"
  using unsigned_less [of a, where 'a = nat] by simp

lemma unat_ucast_16_32: "unat (ucast (a :: 16 word) :: 32 word) = unat a"
proof -
  have "unat a < 2 ^ 32"
    using unat_u16_less [of a] by simp
  then show ?thesis
    by (simp add: unsigned_ucast_eq take_bit_nat_eq_self)
qed

lemma ucast_drop_less:
  "(ucast (a :: 16 word) :: 32 word) < ucast (b :: 16 word) \<longleftrightarrow> a < b"
  by (simp add: word_less_nat_alt unat_ucast_16_32)

lemma two_power_31: "(2::int) ^ 31 = 2147483648"
  by simp

text \<open>A small \<open>unsigned int\<close> read as \<open>int\<close> is the same number.\<close>

lemma sint_small:
  fixes d :: "32 word"
  assumes "unat d < 65536"
  shows "sint d = int (unat d)"
proof -
  have len: "LENGTH(32) - Suc 0 = 31" by simp
  have u: "uint d = int (unat d)" by (rule uint_nat)
  have "signed_take_bit 31 (int (unat d)) = int (unat d)"
  proof (rule signed_take_bit_int_eq_self)
    show "- (2 ^ 31) \<le> int (unat d)"
      unfolding two_power_31 by linarith
    show "int (unat d) < 2 ^ 31"
      unfolding two_power_31 using assms by linarith
  qed
  then show ?thesis
    by (simp only: sint_uint len u)
qed

lemma sint_drop_difference:
  assumes "(a :: 16 word) < b"
  shows "sint ((ucast b :: 32 word) - ucast a) = int (unat b) - int (unat a)"
proof -
  let ?d = "(ucast b :: 32 word) - ucast a"
  from assms have lt: "unat a < unat b"
    by (simp add: word_less_nat_alt)
  then have "(ucast a :: 32 word) \<le> ucast b"
    by (simp add: word_le_nat_alt unat_ucast_16_32)
  then have u: "unat ?d = unat b - unat a"
    by (simp add: unat_sub unat_ucast_16_32)
  with unat_u16_less [of b] have "unat ?d < 65536" by linarith
  then have "sint ?d = int (unat ?d)" by (rule sint_small)
  with u lt show ?thesis by linarith
qed

subsection \<open>Link diagnostics\<close>

text \<open>One poll of a live link, in one step.\<close>

lemma run_live:
  "run (Some st) d stat =
     (d\<lparr>last_drop_count := ucast (packet_rx_drop_count st)\<rparr>,
      stat\<lparr>key_values := key_values stat @
              [(''Received packets:'', unat (packet_rx_success_count st)),
               (''Dropped packets:'', unat (packet_rx_drop_count st)),
               (''Buffer overruns:'', unat (buffer_overrun st)),
               (''Parse errors:'', unat (parse_error st)),
               (''Rx sequence number:'', unat (current_rx_seq st)),
               (''Tx sequence number:'', unat (current_tx_seq st))],
            level := (if last_drop_count d < ucast (packet_rx_drop_count st) then 1 else 0),
            message := (if last_drop_count d < ucast (packet_rx_drop_count st)
                        then Formatted ''%d packeges dropped since last report''
                               (sint (ucast (packet_rx_drop_count st) - last_drop_count d))
                        else Text ''connected'')\<rparr>)"
  by (simp add: run_def addf_def summary_def summaryf_def Let_def)

text \<open>
  C9. For two successive polls of a live link, with the statuses \<open>st1\<close> and then \<open>st2\<close>,
  from any state of the task and into any status objects: when the drop counter has
  increased, the second poll reports a warning (level 1) whose number is exactly the
  current drop count minus the one recorded at the first poll; otherwise it reports
  "connected" (level 0). The counters themselves are reported as they are, so that the
  received counts 10 and then 15 of two reports are 5 apart.
\<close>

theorem run_reports_new_drops:
  "level (snd (run (Some st2) (fst (run (Some st1) d stat1)) stat2))
     = (if packet_rx_drop_count st1 < packet_rx_drop_count st2 then 1 else 0)
   \<and> message (snd (run (Some st2) (fst (run (Some st1) d stat1)) stat2))
     = (if packet_rx_drop_count st1 < packet_rx_drop_count st2
        then Formatted ''%d packeges dropped since last report''
               (int (unat (packet_rx_drop_count st2)) - int (unat (packet_rx_drop_count st1)))
        else Text ''connected'')
   \<and> key_values (snd (run (Some st2) (fst (run (Some st1) d stat1)) stat2))
     = key_values stat2 @
         [(''Received packets:'', unat (packet_rx_success_count st2)),
          (''Dropped packets:'', unat (packet_rx_drop_count st2)),
          (''Buffer overruns:'', unat (buffer_overrun st2)),
          (''Parse errors:'', unat (parse_error st2)),
          (''Rx sequence number:'', unat (current_rx_seq st2)),
          (''Tx sequence number:'', unat (current_tx_seq st2))]"
  by (simp add: run_live ucast_drop_less sint_drop_difference)

text \<open>
  The specification's example: 10 received and 2 dropped, then 15 received and 2
  dropped. The second poll reports "connected", no new drops, and the counts 15 and 2.
\<close>

theorem run_reports_new_drops_witness:
  "level (snd (run (Some example_status_2)
                 (fst (run (Some example_status_1) \<lparr>last_drop_count = 0\<rparr> empty_stat)) empty_stat)) = 0
   \<and> message (snd (run (Some example_status_2)
                 (fst (run (Some example_status_1) \<lparr>last_drop_count = 0\<rparr> empty_stat)) empty_stat))
       = Text ''connected''
   \<and> key_values (snd (run (Some example_status_2)
                 (fst (run (Some example_status_1) \<lparr>last_drop_count = 0\<rparr> empty_stat)) empty_stat))
       = [(''Received packets:'', 15), (''Dropped packets:'', 2), (''Buffer overruns:'', 0),
          (''Parse errors:'', 0), (''Rx sequence number:'', 17), (''Tx sequence number:'', 0)]"
  using run_reports_new_drops
          [of example_status_2 example_status_1 "\<lparr>last_drop_count = 0\<rparr>" empty_stat empty_stat]
  by (simp add: example_status_1_def example_status_2_def empty_stat_def)

text \<open>With three more drops at the second poll, the warning counts three.\<close>

lemma run_three_new_drops:
  "snd (run (Some (example_status_2\<lparr>packet_rx_drop_count := 5\<rparr>))
         (fst (run (Some example_status_1) \<lparr>last_drop_count = 0\<rparr> empty_stat)) empty_stat)
     = \<lparr>key_values =
          [(''Received packets:'', 15), (''Dropped packets:'', 5), (''Buffer overruns:'', 0),
           (''Parse errors:'', 0), (''Rx sequence number:'', 17), (''Tx sequence number:'', 0)],
        level = 1,
        message = Formatted ''%d packeges dropped since last report'' 3\<rparr>"
  by (simp add: run_live example_status_1_def example_status_2_def empty_stat_def
      ucast_drop_less sint_drop_difference)

subsection \<open>Signals\<close>

lemma signal_call_all_return:
  "\<forall>p \<in> set slots. message_rx_cb p args = Returned
     \<Longrightarrow> signal_call message_rx_cb slots args = (map (\<lambda>p. (p, args)) slots, Returned)"
  by (induction slots) simp_all

lemma signal_call_first_throw:
  "\<forall>p' \<in> set before. message_rx_cb p' args = Returned \<Longrightarrow> message_rx_cb p args = Thrown
     \<Longrightarrow> signal_call message_rx_cb (before @ p # after) args
           = (map (\<lambda>p. (p, args)) (before @ [p]), Thrown)"
  by (induction before) simp_all

subsection \<open>The routing table after registration\<close>

lemma length_connect: "length (connect it plugin table) = length table"
  by (simp add: connect_def)

lemma nth_connect:
  "length table = 256 \<Longrightarrow>
     connect it plugin table ! unat m = table ! unat m @ (if it = m then [plugin] else [])"
  using unat_u8_less_256 [of m] by (simp add: connect_def nth_list_update word_unat_eq_iff)

lemma connect_loop:
  "length (message_route_table s) = 256 \<Longrightarrow>
   (let s' = foldl (\<lambda>s it. s\<lparr>message_route_table := connect it plugin (message_route_table s)\<rparr>)
               s its
    in length (message_route_table s') = 256
       \<and> loaded_plugins s' = loaded_plugins s
       \<and> message_route_table s' ! unat m
           = message_route_table s ! unat m @ subscribers (map (\<lambda>it. (it, plugin)) its) m)"
proof (induction its arbitrary: s)
  case Nil
  then show ?case by (simp add: subscribers_def)
next
  case (Cons it its)
  let ?s1 = "s\<lparr>message_route_table := connect it plugin (message_route_table s)\<rparr>"
  from Cons.prems have "length (message_route_table ?s1) = 256"
    by (simp add: length_connect)
  from Cons.IH [OF this] Cons.prems show ?case
    by (simp add: Let_def nth_connect subscribers_def)
qed

lemma subscribers_append: "subscribers (xs @ ys) m = subscribers xs m @ subscribers ys m"
  by (simp add: subscribers_def)

lemma add_plugin_table:
  assumes "length (message_route_table s) = 256"
  shows "length (message_route_table (add_plugin createInstance gsm pl_name s)) = 256"
    and "message_route_table (add_plugin createInstance gsm pl_name s) ! unat m
           = message_route_table s ! unat m
             @ subscribers (registrations createInstance gsm [pl_name]) m"
proof -
  show "length (message_route_table (add_plugin createInstance gsm pl_name s)) = 256"
  proof (cases "createInstance pl_name")
    case None
    with assms show ?thesis by (simp add: add_plugin_def)
  next
    case (Some plugin)
    from assms
    have "length (message_route_table (s\<lparr>loaded_plugins := loaded_plugins s @ [plugin]\<rparr>)) = 256"
      by simp
    from connect_loop [OF this, of plugin "gsm plugin" m] Some show ?thesis
      by (simp add: add_plugin_def Let_def)
  qed
  show "message_route_table (add_plugin createInstance gsm pl_name s) ! unat m
           = message_route_table s ! unat m
             @ subscribers (registrations createInstance gsm [pl_name]) m"
  proof (cases "createInstance pl_name")
    case None
    then show ?thesis by (simp add: add_plugin_def registrations_def subscribers_def)
  next
    case (Some plugin)
    from assms
    have "length (message_route_table (s\<lparr>loaded_plugins := loaded_plugins s @ [plugin]\<rparr>)) = 256"
      by simp
    from connect_loop [OF this, of plugin "gsm plugin" m] Some show ?thesis
      by (simp add: add_plugin_def Let_def registrations_def)
  qed
qed

lemma add_plugins_table:
  "length (message_route_table s) = 256 \<Longrightarrow>
   (let s' = foldl (\<lambda>s pl_name. add_plugin createInstance gsm pl_name s) s plugins
    in length (message_route_table s') = 256
       \<and> message_route_table s' ! unat m
           = message_route_table s ! unat m
             @ subscribers (registrations createInstance gsm plugins) m)"
proof (induction plugins arbitrary: s)
  case Nil
  then show ?case by (simp add: registrations_def subscribers_def)
next
  case (Cons pl_name plugins)
  let ?s1 = "add_plugin createInstance gsm pl_name s"
  from Cons.prems have len: "length (message_route_table ?s1) = 256"
    by (rule add_plugin_table(1))
  have "registrations createInstance gsm (pl_name # plugins)
          = registrations createInstance gsm [pl_name] @ registrations createInstance gsm plugins"
    by (simp add: registrations_def)
  with Cons.IH [OF len] add_plugin_table(2) [OF Cons.prems, of createInstance gsm pl_name m]
  show ?case
    by (simp add: Let_def subscribers_append)
qed

text \<open>
  After the constructor, the table has its 256 signals, and the signal of a message id
  holds the plugins registered for that id, in registration order.
\<close>

lemma MavRos_ctor_table:
  "length (message_route_table (MavRos_ctor createInstance gsm plugins)) = 256"
  "message_route_table (MavRos_ctor createInstance gsm plugins) ! unat m
     = subscribers (registrations createInstance gsm plugins) m"
proof -
  have len: "length (message_route_table (MavRos_new :: 'a MavRos)) = 256"
    by (simp add: MavRos_new_def)
  have empty: "message_route_table (MavRos_new :: 'a MavRos) ! unat m = []"
    using unat_u8_less_256 [of m] by (simp add: MavRos_new_def)
  from add_plugins_table [OF len, of createInstance gsm plugins m] empty
  show "length (message_route_table (MavRos_ctor createInstance gsm plugins)) = 256"
    and "message_route_table (MavRos_ctor createInstance gsm plugins) ! unat m
     = subscribers (registrations createInstance gsm plugins) m"
    by (simp_all add: MavRos_ctor_def Let_def)
qed

lemma example_subscribers:
  "subscribers (registrations example_createInstance example_supported_messages example_plugins) 30
     = [1, 2]"
  by (simp add: registrations_def subscribers_def example_createInstance_def
      example_supported_messages_def example_plugins_def)

subsection \<open>Dispatch\<close>

text \<open>
  C6, as stated: dispatching a packet with the id \<open>m\<close> calls each of the subscribers
  registered for \<open>m\<close> exactly once, in registration order, whatever the callbacks do.
  It fails in the example when every callback throws: of the two subscribers of the id
  30 only the first is called, and the dispatch ends with its exception.
\<close>

theorem plugin_route_cb_registration_order_counterexample:
  "subscribers (registrations example_createInstance example_supported_messages example_plugins)
     (msgid example_message) = [1, 2]
   \<and> plugin_route_cb (\<lambda>p args. Thrown)
       (MavRos_ctor example_createInstance example_supported_messages example_plugins)
       example_message 1 1
     = ([(1, example_message, 1, 1)], Thrown)
   \<and> fst (plugin_route_cb (\<lambda>p args. Thrown)
       (MavRos_ctor example_createInstance example_supported_messages example_plugins)
       example_message 1 1)
     \<noteq> [(1, example_message, 1, 1), (2, example_message, 1, 1)]"
proof -
  have id: "msgid example_message = 30"
    by (simp add: example_message_def)
  have "message_route_table
          (MavRos_ctor example_createInstance example_supported_messages example_plugins) ! 30
        = [1, 2]"
    using MavRos_ctor_table(2)
            [of example_createInstance example_supported_messages example_plugins 30]
    by (simp add: example_subscribers)
  then show ?thesis
    by (simp add: id plugin_route_cb_def example_subscribers)
qed

text \<open>
  C6, amended: for every message id \<open>m\<close> (a \<open>uint8_t\<close>, so in 0..255) and the subscribers
  registered for \<open>m\<close> by the constructor, in registration order: provided the callback
  of every one of these subscribers returns on the packet, dispatching a packet with the
  id \<open>m\<close> calls each of them exactly once, in that order, with the packet and its source
  system and component ids.
\<close>

theorem plugin_route_cb_registration_order:
  assumes "\<forall>p \<in> set (subscribers (registrations createInstance gsm plugins) (msgid mmsg)).
             message_rx_cb p (mmsg, sysid', compid') = Returned"
  shows "plugin_route_cb message_rx_cb (MavRos_ctor createInstance gsm plugins) mmsg sysid' compid'
           = (map (\<lambda>p. (p, mmsg, sysid', compid'))
                (subscribers (registrations createInstance gsm plugins) (msgid mmsg)),
              Returned)"
  using assms by (simp add: plugin_route_cb_def MavRos_ctor_table signal_call_all_return)

theorem plugin_route_cb_registration_order_witness:
  "plugin_route_cb (\<lambda>p args. Returned)
     (MavRos_ctor example_createInstance example_supported_messages example_plugins)
     example_message 1 1
   = ([(1, example_message, 1, 1), (2, example_message, 1, 1)], Returned)"
proof -
  have id: "msgid example_message = 30"
    by (simp add: example_message_def)
  from plugin_route_cb_registration_order
         [of example_createInstance example_supported_messages example_plugins example_message
           "\<lambda>p args. Returned" 1 1]
  show ?thesis
    by (simp add: id example_subscribers)
qed

text \<open>
  C8, as stated: a failing callback is caught inside dispatch and the remaining
  subscribers are still called. It fails in the example when the callback of the first
  subscriber throws: the dispatch ends with the exception, and the second subscriber is
  not called.
\<close>

theorem plugin_route_cb_failure_counterexample:
  "subscribers (registrations example_createInstance example_supported_messages example_plugins)
     (msgid example_message) = [1, 2]
   \<and> plugin_route_cb (\<lambda>p args. if p = 1 then Thrown else Returned)
       (MavRos_ctor example_createInstance example_supported_messages example_plugins)
       example_message 1 1
     = ([(1, example_message, 1, 1)], Thrown)"
proof -
  have id: "msgid example_message = 30"
    by (simp add: example_message_def)
  have "message_route_table
          (MavRos_ctor example_createInstance example_supported_messages example_plugins) ! 30
        = [1, 2]"
    using MavRos_ctor_table(2)
            [of example_createInstance example_supported_messages example_plugins 30]
    by (simp add: example_subscribers)
  then show ?thesis
    by (simp add: id plugin_route_cb_def example_subscribers)
qed

text \<open>
  C8, amended: when the callback of a subscriber throws and those of the subscribers
  registered before it return, the exception leaves the dispatch; the subscribers
  before the failing one and the failing one have been called, in registration order,
  and no subscriber after it is called.
\<close>

theorem plugin_route_cb_failure_propagates:
  assumes "subscribers (registrations createInstance gsm plugins) (msgid mmsg) = before @ p # after"
    and "\<forall>p' \<in> set before. message_rx_cb p' (mmsg, sysid', compid') = Returned"
    and "message_rx_cb p (mmsg, sysid', compid') = Thrown"
  shows "plugin_route_cb message_rx_cb (MavRos_ctor createInstance gsm plugins) mmsg sysid' compid'
           = (map (\<lambda>p. (p, mmsg, sysid', compid')) (before @ [p]), Thrown)"
  using assms by (simp add: plugin_route_cb_def MavRos_ctor_table signal_call_first_throw)

theorem plugin_route_cb_failure_propagates_witness:
  "plugin_route_cb (\<lambda>p args. if p = 2 then Thrown else Returned)
     (MavRos_ctor example_createInstance example_supported_messages example_plugins)
     example_message 1 1
   = ([(1, example_message, 1, 1), (2, example_message, 1, 1)], Thrown)"
proof -
  have id: "msgid example_message = 30"
    by (simp add: example_message_def)
  have subs: "subscribers
                (registrations example_createInstance example_supported_messages example_plugins)
                (msgid example_message) = [1] @ 2 # []"
    by (simp add: id example_subscribers)
  from plugin_route_cb_failure_propagates
         [of example_createInstance example_supported_messages example_plugins example_message
           "[1]" 2 "[]" "\<lambda>p args. if p = 2 then Thrown else Returned" 1 1, OF subs]
  show ?thesis by simp
qed

subsection \<open>Registration\<close>

text \<open>
  A message id reaches the table as a \<open>uint8_t\<close>, the element type of the list that
  \<open>get_supported_messages\<close> returns: every id is in 0..255 and indexes one of the 256
  signals, and neither \<open>add_plugin\<close> nor \<open>connect\<close> has a branch that rejects an id. In a
  table of 256 signals, connecting a plugin for a message id appends the plugin to the
  signal of that id and leaves the other signals and the size of the table as they were.
  The specification's \<open>InvalidId\<close> for ids outside 0..255 (C7) has no input to apply to:
  no value of the type is outside that range.
\<close>

lemma connect_accepts_every_id:
  assumes "length table = 256"
  shows "unat it < 256
       \<and> length (connect it plugin table) = 256
       \<and> connect it plugin table ! unat it = table ! unat it @ [plugin]
       \<and> (\<forall>j \<in> set [0..<256]. j \<noteq> unat it \<longrightarrow> connect it plugin table ! j = table ! j)"
  using assms unat_u8_less_256 [of it] by (simp add: connect_def)

lemma connect_last_id_example:
  "length (replicate 256 ([] :: nat list)) = 256
   \<and> unat (255 :: 8 word) = 255
   \<and> connect 255 (1::nat) (replicate 256 []) ! 255 = [1]
   \<and> connect 255 (1::nat) (replicate 256 []) ! 0 = []"
  using connect_accepts_every_id [of "replicate 256 ([] :: nat list)" 255 1]
  by simp

end
